theory Spec2Isabelle
  imports Main "HOL-Library.AList"
begin

section \<open>JavaScript values\<close>

text \<open>
  The values the three modules handle: what a GraphQL response can hold (parsed JSON),
  \<open>undefined\<close>, and functions, which \<open>typeof\<close> tells apart from objects. An object or a
  function carries its properties as an association list in insertion order; the first
  entry of a name is the one a lookup finds. Numbers are kept as integers: the program
  never computes with them, only their being zero matters (for truthiness).
\<close>

datatype jsval =
    JUndefined
  | JNull
  | JBool bool
  | JNum int
  | JStr string
  | JArr "jsval list"
  | JObj "(string \<times> jsval) list"
  | JFun "(string \<times> jsval) list"

text \<open>
  What a \<open>throw\<close> or a rejected promise carries: an \<open>Error\<close> built by the program with its
  message, a \<open>TypeError\<close> raised by the language itself, or the value the backend SDK
  rejected with.
\<close>

datatype thrown = Error string | TypeError | Rejected jsval

fun typeof :: "jsval \<Rightarrow> string" where
  "typeof JUndefined = ''undefined''"
| "typeof JNull = ''object''"
| "typeof (JBool b) = ''boolean''"
| "typeof (JNum n) = ''number''"
| "typeof (JStr s) = ''string''"
| "typeof (JArr xs) = ''object''"
| "typeof (JObj ps) = ''object''"
| "typeof (JFun ps) = ''function''"

fun truthy :: "jsval \<Rightarrow> bool" where
  "truthy JUndefined = False"
| "truthy JNull = False"
| "truthy (JBool b) = b"
| "truthy (JNum n) = (n \<noteq> 0)"
| "truthy (JStr s) = (s \<noteq> [])"
| "truthy (JArr xs) = True"
| "truthy (JObj ps) = True"
| "truthy (JFun ps) = True"

fun props_of :: "jsval \<Rightarrow> (string \<times> jsval) list" where
  "props_of (JObj ps) = ps"
| "props_of (JFun ps) = ps"
| "props_of v = []"

text \<open>
  \<open>has_field v k\<close>: \<open>v\<close> is an object (or function) with a property named \<open>k\<close>, whatever
  its value, \<open>undefined\<close> included.
\<close>

definition has_field :: "jsval \<Rightarrow> string \<Rightarrow> bool" where
  "has_field v k = (map_of (props_of v) k \<noteq> None)"

text \<open>
  Member access \<open>v.k\<close>. On \<open>null\<close> and \<open>undefined\<close> it raises a TypeError. The names this
  program reads (\<open>global\<close>, \<open>service_mode\<close>, \<open>maintenance_page_title\<close>,
  \<open>maintenance_page_body\<close>, \<open>page\<close>) are defined by no built-in prototype, so on a
  primitive or an array the result is \<open>undefined\<close>, and on an object it is the listed
  property or \<open>undefined\<close>.
\<close>

fun js_get :: "jsval \<Rightarrow> string \<Rightarrow> thrown + jsval" where
  "js_get JUndefined k = Inl TypeError"
| "js_get JNull k = Inl TypeError"
| "js_get v k = Inr (case map_of (props_of v) k of None \<Rightarrow> JUndefined | Some x \<Rightarrow> x)"

text \<open>Optional chaining \<open>v?.k\<close>: \<open>undefined\<close> when \<open>v\<close> is \<open>null\<close> or \<open>undefined\<close>.\<close>

fun opt_get :: "jsval \<Rightarrow> string \<Rightarrow> jsval" where
  "opt_get JUndefined k = JUndefined"
| "opt_get JNull k = JUndefined"
| "opt_get v k = (case map_of (props_of v) k of None \<Rightarrow> JUndefined | Some x \<Rightarrow> x)"

text \<open>
  Assignment \<open>v.k = x\<close> in module (strict) code: on an object or function the property
  is overwritten in place or appended; on \<open>null\<close>, \<open>undefined\<close> and primitives it raises
  a TypeError. An array would take the named property; arrays of this model carry only
  their elements, so that case is left out of the model as a TypeError too (the program
  never reaches it: see \<open>service_mode_object\<close>).
\<close>

fun js_set :: "jsval \<Rightarrow> string \<Rightarrow> jsval \<Rightarrow> thrown + jsval" where
  "js_set (JObj ps) k x = Inr (JObj (AList.update k x ps))"
| "js_set (JFun ps) k x = Inr (JFun (AList.update k x ps))"
| "js_set v k x = Inl TypeError"

section \<open>The host: environment, SDK and backend\<close>

text \<open>
  A client handle as \<open>createDirectus(url).with(...)\<close> builds it: \<open>ident\<close> tells two
  instances apart (object identity), \<open>extensions\<close> lists the capabilities added by
  \<open>with\<close>, in order.
\<close>

record directus_client =
  ident :: nat
  url :: string
  extensions :: "string list"

text \<open>
  Everything the modules take from outside. \<open>process_env\<close> is \<open>process.env\<close>.
  \<open>JSON_stringify v\<close> is the text \<open>${JSON.stringify(v)}\<close> and \<open>String_of v\<close> the text
  \<open>${v}\<close>; \<open>URL_parses u\<close> says that \<open>new URL(u)\<close> accepts the string. The three are
  built-ins of the platform, left as parameters. \<open>login_outcome\<close> and
  \<open>query_outcome\<close> are the backend: given how many calls came before, the client and
  the arguments, the promise rejects (\<open>Inl\<close>) or resolves (\<open>Inr\<close>).
\<close>

record host =
  process_env :: "string \<Rightarrow> string option"
  JSON_stringify :: "jsval \<Rightarrow> string"
  String_of :: "jsval \<Rightarrow> string"
  URL_parses :: "string \<Rightarrow> bool"
  login_outcome :: "nat \<Rightarrow> directus_client \<Rightarrow> string \<Rightarrow> string \<Rightarrow> jsval + unit"
  query_outcome :: "nat \<Rightarrow> directus_client \<Rightarrow> string \<Rightarrow> jsval + jsval"

text \<open>
  The state the modules read and write: the module variable \<open>client\<close> (\<open>None\<close> is
  \<open>undefined\<close>), and the trace of what they did to the outside: clients created, login
  and query calls (with the client's \<open>ident\<close>), lines written by \<open>console.error\<close> and
  \<open>console.log\<close>, lines given to \<open>debug\<close>. Each exported function runs from call to
  return without another call interleaved at its \<open>await\<close>s.
\<close>

record world =
  client :: "directus_client option"
  created :: nat
  logins :: "(nat \<times> string \<times> string) list"
  queries :: "(nat \<times> string) list"
  console :: "string list"
  debug_out :: "string list"

definition world0 :: world where
  "world0 = \<lparr>client = None, created = 0, logins = [], queries = [], console = [],
     debug_out = []\<rparr>"

definition console_error :: "string \<Rightarrow> world \<Rightarrow> world" where
  "console_error msg w = w\<lparr>console := console w @ [msg]\<rparr>"

definition console_log :: "string \<Rightarrow> world \<Rightarrow> world" where
  "console_log msg w = w\<lparr>console := console w @ [msg]\<rparr>"

definition debug :: "string \<Rightarrow> world \<Rightarrow> world" where
  "debug msg w = w\<lparr>debug_out := debug_out w @ [msg]\<rparr>"

text \<open>
  \<open>createDirectus(url)\<close> of the SDK starts with \<open>new URL(url)\<close>: on a string that is not a
  URL it raises a TypeError and builds nothing.
\<close>

definition createDirectus ::
  "host \<Rightarrow> string \<Rightarrow> world \<Rightarrow> thrown + (directus_client \<times> world)" where
  "createDirectus h u w =
     (if URL_parses h u
      then Inr (\<lparr>ident = created w, url = u, extensions = []\<rparr>,
                w\<lparr>created := Suc (created w)\<rparr>)
      else Inl TypeError)"

definition with_ext :: "directus_client \<Rightarrow> string \<Rightarrow> directus_client" where
  "with_ext c e = c\<lparr>extensions := extensions c @ [e]\<rparr>"

definition client_login ::
  "host \<Rightarrow> directus_client \<Rightarrow> string \<Rightarrow> string \<Rightarrow> world \<Rightarrow> (jsval + unit) \<times> world" where
  "client_login h c u p w =
     (login_outcome h (length (logins w)) c u p, w\<lparr>logins := logins w @ [(ident c, u, p)]\<rparr>)"

definition client_query ::
  "host \<Rightarrow> directus_client \<Rightarrow> string \<Rightarrow> world \<Rightarrow> (jsval + jsval) \<times> world" where
  "client_query h c q w =
     (query_outcome h (length (queries w)) c q, w\<lparr>queries := queries w @ [(ident c, q)]\<rparr>)"

section \<open>lib/server/client: the client provider\<close>

text \<open>\<open>process.env.X || fallback\<close>: the fallback also replaces an empty string.\<close>

definition env_or :: "host \<Rightarrow> string \<Rightarrow> string \<Rightarrow> string" where
  "env_or h name fallback =
     (case process_env h name of
        None \<Rightarrow> fallback
      | Some v \<Rightarrow> if v \<noteq> [] then v else fallback)"

definition API_URL :: "host \<Rightarrow> string" where
  "API_URL h = env_or h ''API_URL'' ''http://localhost:8055''"

definition API_USERNAME :: "host \<Rightarrow> string" where
  "API_USERNAME h = env_or h ''API_USERNAME'' ''admin''"

definition API_PASSWORD :: "host \<Rightarrow> string" where
  "API_PASSWORD h = env_or h ''API_PASSWORD'' ''password''"

definition CLIENT_PROPS :: "string list" where
  "CLIENT_PROPS =
     [''globals'', ''url'', ''with'', ''refresh'', ''login'', ''logout'', ''stopRefreshing'',
      ''getToken'', ''setToken'', ''request'', ''query'']"

text \<open>
  \<open>getBackendClient (apiUsername = API_USERNAME, apiPassword = API_PASSWORD,
  apiUrl = API_URL)\<close>. An argument left out (\<open>None\<close>) takes its default. The body
  stores the new client in the module variable before it logs in, and builds and logs
  in with the module constants. The client is built outside the \<open>try\<close>: when
  \<open>createDirectus\<close> raises, the exception leaves the function as it is and the module
  variable is not assigned.
\<close>

definition getBackendClient ::
  "host \<Rightarrow> string option \<Rightarrow> string option \<Rightarrow> string option \<Rightarrow> world
     \<Rightarrow> (thrown + directus_client) \<times> world" where
  "getBackendClient h username password url_arg w =
     (let apiUsername = (case username of None \<Rightarrow> API_USERNAME h | Some u \<Rightarrow> u);
          apiPassword = (case password of None \<Rightarrow> API_PASSWORD h | Some p \<Rightarrow> p);
          apiUrl = (case url_arg of None \<Rightarrow> API_URL h | Some u \<Rightarrow> u)
      in case client w of
           None \<Rightarrow>
             (case createDirectus h (API_URL h) w of
                Inl e \<Rightarrow> (Inl e, w)
              | Inr (c0, w1) \<Rightarrow>
                  (let c = with_ext (with_ext (with_ext c0 ''authentication(json)'') ''rest'')
                             ''graphql'';
                       w2 = w1\<lparr>client := Some c\<rparr>
                   in case client_login h c (API_USERNAME h) (API_PASSWORD h) w2 of
                        (Inl err, w3) \<Rightarrow>
                          (Inl (Error (''Failed to log into backend: ''
                                 @ JSON_stringify h err)), w3)
                      | (Inr ok, w3) \<Rightarrow> (Inr c, w3)))
         | Some c \<Rightarrow> (Inr c, w))"

text \<open>
  The operator \<open>k in v\<close>, for the names of \<open>CLIENT_PROPS\<close>. On \<open>null\<close>, \<open>undefined\<close> and
  primitives it raises a TypeError. No built-in prototype of objects or functions
  defines one of these names, so there the test is a lookup among the listed
  properties; an array inherits \<open>with\<close> (\<open>Array.prototype.with\<close>) and none of the
  others.
\<close>

fun js_in :: "string \<Rightarrow> jsval \<Rightarrow> thrown + bool" where
  "js_in k (JObj ps) = Inr (map_of ps k \<noteq> None)"
| "js_in k (JFun ps) = Inr (map_of ps k \<noteq> None)"
| "js_in k (JArr xs) = Inr (k = ''with'')"
| "js_in k v = Inl TypeError"

text \<open>
  \<open>props.every(prop => prop in v)\<close>: left to right, stops at the first \<open>false\<close>, and an
  exception of the callback ends the call.
\<close>

fun every_in :: "string list \<Rightarrow> jsval \<Rightarrow> thrown + bool" where
  "every_in [] v = Inr True"
| "every_in (p # ps) v =
     (case js_in p v of
        Inl e \<Rightarrow> Inl e
      | Inr b \<Rightarrow> if b then every_in ps v else Inr False)"

definition isDirectusClient :: "jsval \<Rightarrow> thrown + bool" where
  "isDirectusClient v =
     (if typeof v = ''object'' then every_in CLIENT_PROPS v else Inr False)"

section \<open>lib/server/site: the site configuration\<close>

text \<open>A template literal spanning several lines: the lines joined by line feeds.\<close>

fun join_lines :: "string list \<Rightarrow> string" where
  "join_lines [] = []"
| "join_lines [l] = l"
| "join_lines (l # ls) = l @ CHR 0x0A # join_lines ls"

definition SITE_CONFIG_QUERY :: string where
  "SITE_CONFIG_QUERY = join_lines
     [''{'',
      ''  global {'',
      ''    title'',
      ''    description'',
      ''    navbar_config'',
      ''    service_mode'',
      ''    date_updated'',
      ''  }'',
      ''}'']"

definition MAINTENANCE_MODE_QUERY :: string where
  "MAINTENANCE_MODE_QUERY = join_lines
     [''{'',
      ''  global {'',
      ''    maintenance_page_title'',
      ''    maintenance_page_body'',
      ''  }'',
      ''}'']"

text \<open>
  The two assignments guarded by \<open>if (resp?.global)\<close>:
  \<^verbatim>\<open>result.maintenance_page_title = resp.global.maintenance_page_title\<close> and the same for
  \<open>maintenance_page_body\<close>, each reading its right-hand side first.
\<close>

definition copy_field :: "jsval \<Rightarrow> jsval \<Rightarrow> string \<Rightarrow> thrown + jsval" where
  "copy_field result resp k =
     (case js_get resp ''global'' of
        Inl e \<Rightarrow> Inl e
      | Inr g \<Rightarrow>
          (case js_get g k of
             Inl e \<Rightarrow> Inl e
           | Inr x \<Rightarrow> js_set result k x))"

definition merge_maintenance :: "jsval \<Rightarrow> jsval \<Rightarrow> thrown + jsval" where
  "merge_maintenance result resp =
     (case copy_field result resp ''maintenance_page_title'' of
        Inl e \<Rightarrow> Inl e
      | Inr r1 \<Rightarrow> copy_field r1 resp ''maintenance_page_body'')"

text \<open>The last two statements: the \<open>debug\<close> line, then \<open>return result\<close>.\<close>

definition return_result :: "host \<Rightarrow> jsval \<Rightarrow> world \<Rightarrow> (thrown + jsval) \<times> world" where
  "return_result h result w =
     (Inr result, debug (''in getSiteConfig, result: '' @ JSON_stringify h result) w)"

text \<open>
  \<open>getSiteConfig\<close>. After the test \<open>if (resp?.global)\<close> the source reads \<open>resp.global\<close>
  again; that is the value the test saw, \<open>opt_get resp ''global''\<close>. A rejected query
  is caught, logged with \<open>console.error\<close> and raised again as an \<open>Error\<close>.
\<close>

definition getSiteConfig :: "host \<Rightarrow> world \<Rightarrow> (thrown + jsval) \<times> world" where
  "getSiteConfig h w =
     (case getBackendClient h None None None w of
        (Inl e, w1) \<Rightarrow> (Inl e, w1)
      | (Inr c, w1) \<Rightarrow>
          (case client_query h c SITE_CONFIG_QUERY w1 of
             (Inl error, w2) \<Rightarrow>
               (let errMsg = ''Failed to retrieve site config: '' @ String_of h error
                in (Inl (Error errMsg), console_error errMsg w2))
           | (Inr resp, w2) \<Rightarrow>
               (let (result, w3) =
                      (if truthy (opt_get resp ''global'')
                       then (opt_get resp ''global'', w2)
                       else (JObj [],
                             console_error
                               ''No global object found in getSiteConfig, should not happen.'' w2))
                in case js_get result ''service_mode'' of
                     Inl e \<Rightarrow> (Inl e, w3)
                   | Inr mode \<Rightarrow>
                       if mode = JStr ''maintenance'' then
                         (let w4 = console_log ''Site is in maintenance mode'' w3
                          in case client_query h c MAINTENANCE_MODE_QUERY w4 of
                               (Inl error, w5) \<Rightarrow>
                                 (let errMsg = ''Failed to retrieve maintenance mode config: ''
                                        @ String_of h error
                                  in (Inl (Error errMsg), console_error errMsg w5))
                             | (Inr resp2, w5) \<Rightarrow>
                                 if truthy (opt_get resp2 ''global'') then
                                   (case merge_maintenance result resp2 of
                                      Inl e \<Rightarrow> (Inl e, w5)
                                    | Inr merged \<Rightarrow> return_result h merged w5)
                                 else return_result h result w5)
                       else return_result h result w3)))"

section \<open>lib/server/page: a page by its slug\<close>

definition PAGE_QUERY :: string where
  \<open>PAGE_QUERY = join_lines
     [''{'',
      ''  page(filter: { slug: { _eq: "{{slug}}" } }) {'',
      ''      slug'',
      ''      title'',
      ''      script'',
      ''      content'',
      ''      style'',
      ''  }'',
      ''}'']\<close>

text \<open>
  Strings are lists of 8-bit characters here (the language has 16-bit code units); no
  property below depends on the difference.

  \<open>String.prototype.replace\<close> with a string pattern and a string replacement.
  \<open>find_split pat s\<close> is the search for the first occurrence of the pattern: the text
  before it and the text after it. \<open>GetSubstitution\<close> is the expansion the language
  applies to the replacement text; with a string pattern there are no captures, so
  \<open>$$\<close> gives a dollar sign, \<open>$&\<close> the matched text, \<open>$`\<close> the text before the match,
  \<open>$'\<close> the text after it, and every other character stands for itself.
\<close>

fun find_split :: "string \<Rightarrow> string \<Rightarrow> (string \<times> string) option" where
  "find_split pat [] = (if pat = [] then Some ([], []) else None)"
| "find_split pat (c # s) =
     (if take (length pat) (c # s) = pat then Some ([], drop (length pat) (c # s))
      else map_option (\<lambda>(pre, post). (c # pre, post)) (find_split pat s))"

fun GetSubstitution :: "string \<Rightarrow> string \<Rightarrow> string \<Rightarrow> string \<Rightarrow> string" where
  "GetSubstitution matched pre post [] = []"
| "GetSubstitution matched pre post [c] = [c]"
| "GetSubstitution matched pre post (c # d # r) =
     (if c = CHR ''$'' then
        (if d = CHR ''$'' then CHR ''$'' # GetSubstitution matched pre post r
         else if d = CHR ''&'' then matched @ GetSubstitution matched pre post r
         else if d = CHR 0x60 then pre @ GetSubstitution matched pre post r
         else if d = CHR 0x27 then post @ GetSubstitution matched pre post r
         else CHR ''$'' # GetSubstitution matched pre post (d # r))
      else c # GetSubstitution matched pre post (d # r))"

definition js_replace :: "string \<Rightarrow> string \<Rightarrow> string \<Rightarrow> string" where
  "js_replace s pat repl =
     (case find_split pat s of
        None \<Rightarrow> s
      | Some (pre, post) \<Rightarrow> pre @ GetSubstitution pat pre post repl @ post)"

text \<open>
  The substitution as the specification words it, for comparison: the first occurrence
  of the placeholder replaced by the literal text.
\<close>

definition literal_replace :: "string \<Rightarrow> string \<Rightarrow> string \<Rightarrow> string" where
  "literal_replace s pat repl =
     (case find_split pat s of
        None \<Rightarrow> s
      | Some (pre, post) \<Rightarrow> pre @ repl @ post)"

text \<open>
  \<open>v.shift()\<close>: on an array, the first element (or \<open>undefined\<close>) and the array without
  it; on \<open>null\<close>, \<open>undefined\<close> and on values with no such method a TypeError. A response
  object that brings a \<open>shift\<close> function of its own is outside the model.
\<close>

fun array_shift :: "jsval \<Rightarrow> thrown + (jsval \<times> jsval)" where
  "array_shift (JArr []) = Inr (JUndefined, JArr [])"
| "array_shift (JArr (x # xs)) = Inr (x, JArr xs)"
| "array_shift v = Inl TypeError"

text \<open>The object \<open>v\<close> once the value held in its property \<open>k\<close> has changed to \<open>x\<close>.\<close>

fun put_field :: "jsval \<Rightarrow> string \<Rightarrow> jsval \<Rightarrow> jsval" where
  "put_field (JObj ps) k x = JObj (AList.update k x ps)"
| "put_field (JFun ps) k x = JFun (AList.update k x ps)"
| "put_field v k x = v"

text \<open>
  \<open>resp.page.shift()\<close>: the element taken, and the response as the call leaves it (the
  array is changed in place).
\<close>

definition shift_page :: "jsval \<Rightarrow> thrown + (jsval \<times> jsval)" where
  "shift_page resp =
     (case js_get resp ''page'' of
        Inl e \<Rightarrow> Inl e
      | Inr pages \<Rightarrow>
          (case array_shift pages of
             Inl e \<Rightarrow> Inl e
           | Inr (x, rest) \<Rightarrow> Inr (x, put_field resp ''page'' rest)))"

text \<open>
  \<open>${JSON.stringify(err)}\<close> for whatever the \<open>catch\<close> caught: an error object of the
  language has no enumerable property of its own and prints as \<open>{}\<close>.
\<close>

fun stringify_thrown :: "host \<Rightarrow> thrown \<Rightarrow> string" where
  "stringify_thrown h (Rejected v) = JSON_stringify h v"
| "stringify_thrown h e = ''{}''"

text \<open>
  What a call of \<open>getPage\<close> leaves: the value it returns, and the response object after
  the call.
\<close>

record page_outcome =
  returned :: jsval
  response_after :: jsval

definition getPage ::
  "host \<Rightarrow> string \<Rightarrow> string option \<Rightarrow> world \<Rightarrow> (thrown + page_outcome) \<times> world" where
  "getPage h slug query_arg w =
     (let query0 = (case query_arg of None \<Rightarrow> PAGE_QUERY | Some q \<Rightarrow> q)
      in case getBackendClient h None None None w of
           (Inl e, w1) \<Rightarrow> (Inl e, w1)
         | (Inr c, w1) \<Rightarrow>
             (let query = js_replace query0 ''{{slug}}'' slug
              in case client_query h c query w1 of
                   (Inl err, w2) \<Rightarrow>
                     (Inl (Error (''failed to retrieve page: ''
                            @ stringify_thrown h (Rejected err))), w2)
                 | (Inr resp, w2) \<Rightarrow>
                     (case shift_page resp of
                        Inl err \<Rightarrow>
                          (Inl (Error (''failed to retrieve page: '' @ stringify_thrown h err)),
                           w2)
                      | Inr (result, resp') \<Rightarrow>
                          (Inr \<lparr>returned = result, response_after = resp'\<rparr>, w2))))"

section \<open>Hosts used as concrete inputs\<close>

text \<open>
  No environment variables; every login resolves; every query resolves with \<open>{}\<close>.
  \<open>new URL\<close> is asked about the default URL only, which it accepts; the host takes the
  strings that go on after \<open>http://\<close> or \<open>https://\<close>.
\<close>

definition plain_host :: host where
  "plain_host =
     \<lparr>process_env = (\<lambda>n. None), JSON_stringify = (\<lambda>v. ''{}''), String_of = (\<lambda>v. ''err''),
      URL_parses = (\<lambda>u. take 7 u = ''http://'' \<and> 7 < length u
                         \<or> take 8 u = ''https://'' \<and> 8 < length u),
      login_outcome = (\<lambda>n c u p. Inr ()), query_outcome = (\<lambda>n c q. Inr (JObj []))\<rparr>"

text \<open>As \<open>plain_host\<close>, but every login rejects with \<open>{}\<close>.\<close>

definition locked_host :: host where
  "locked_host = plain_host\<lparr>login_outcome := (\<lambda>n c u p. Inl (JObj []))\<rparr>"

text \<open>As \<open>plain_host\<close>, but \<open>API_URL\<close> is set to a string that is not a URL.\<close>

definition misconfigured_host :: host where
  "misconfigured_host =
     plain_host\<lparr>process_env := (\<lambda>n. if n = ''API_URL'' then Some ''not a url'' else None)\<rparr>"

definition default_client :: directus_client where
  "default_client =
     \<lparr>ident = 0, url = ''http://localhost:8055'',
      extensions = [''authentication(json)'', ''rest'', ''graphql'']\<rparr>"

text \<open>
  A site in maintenance mode. The first query resolves with
  \<open>{global: maintenance_record}\<close>, every later one with
  \<open>{global: maintenance_texts}\<close>.
\<close>

definition maintenance_record :: jsval where
  "maintenance_record =
     JObj [(''title'', JStr ''LigerBots''), (''service_mode'', JStr ''maintenance'')]"

definition maintenance_texts :: jsval where
  "maintenance_texts =
     JObj [(''maintenance_page_title'', JStr ''Down''),
           (''maintenance_page_body'', JStr ''Back soon'')]"

definition maintenance_host :: host where
  "maintenance_host = plain_host\<lparr>query_outcome :=
     (\<lambda>n c q. if n = 0 then Inr (JObj [(''global'', maintenance_record)])
               else Inr (JObj [(''global'', maintenance_texts)]))\<rparr>"

text \<open>The same site, but the second query resolves with \<open>{}\<close>.\<close>

definition maintenance_bare_host :: host where
  "maintenance_bare_host = plain_host\<lparr>query_outcome :=
     (\<lambda>n c q. if n = 0 then Inr (JObj [(''global'', maintenance_record)])
               else Inr (JObj []))\<rparr>"

text \<open>The same site, but the second query resolves with \<open>{global: null}\<close>.\<close>

definition maintenance_null_host :: host where
  "maintenance_null_host = plain_host\<lparr>query_outcome :=
     (\<lambda>n c q. if n = 0 then Inr (JObj [(''global'', maintenance_record)])
               else Inr (JObj [(''global'', JNull)]))\<rparr>"

text \<open>A backend that answers every query with the same two pages.\<close>

definition about_page :: jsval where
  "about_page = JObj [(''slug'', JStr ''about''), (''title'', JStr ''About us'')]"

definition about_draft :: jsval where
  "about_draft = JObj [(''slug'', JStr ''about''), (''title'', JStr ''About (draft)'')]"

definition two_pages :: jsval where
  "two_pages = JObj [(''page'', JArr [about_page, about_draft]), (''total'', JNum 2)]"

definition page_host :: host where
  "page_host = plain_host\<lparr>query_outcome := (\<lambda>n c q. Inr two_pages)\<rparr>"

text \<open>The world after a first call of \<open>getBackendClient\<close> on a host without environment.\<close>

definition world1 :: world where
  "world1 = world0\<lparr>client := Some default_client, created := 1,
     logins := [(0, ''admin'', ''password'')]\<rparr>"

text \<open>What \<open>getSiteConfig\<close> returns on \<open>maintenance_host\<close>.\<close>

definition merged_record :: jsval where
  "merged_record =
     JObj [(''title'', JStr ''LigerBots''), (''service_mode'', JStr ''maintenance''),
           (''maintenance_page_title'', JStr ''Down''),
           (''maintenance_page_body'', JStr ''Back soon'')]"

section \<open>Properties of the client provider\<close>

lemma getBackendClient_memoized:
  "client w = Some c \<Longrightarrow> getBackendClient h u p a w = (Inr c, w)"
  by (simp add: getBackendClient_def)

lemma getBackendClient_first:
  assumes "client w = None" and "URL_parses h (API_URL h)"
  shows "getBackendClient h u p a w =
     (let c = \<lparr>ident = created w, url = API_URL h,
                extensions = [''authentication(json)'', ''rest'', ''graphql'']\<rparr>;
          w3 = w\<lparr>client := Some c, created := Suc (created w),
                  logins := logins w @ [(created w, API_USERNAME h, API_PASSWORD h)]\<rparr>
      in case login_outcome h (length (logins w)) c (API_USERNAME h) (API_PASSWORD h) of
           Inl err \<Rightarrow> (Inl (Error (''Failed to log into backend: '' @ JSON_stringify h err)), w3)
         | Inr ok \<Rightarrow> (Inr c, w3))"
  using assms
  by (simp add: getBackendClient_def createDirectus_def with_ext_def client_login_def Let_def
      split: sum.splits)

lemma getBackendClient_bad_url:
  assumes "client w = None" and "\<not> URL_parses h (API_URL h)"
  shows "getBackendClient h u p a w = (Inl TypeError, w)"
  using assms
  by (simp add: getBackendClient_def createDirectus_def)

lemma misconfigured_host_raises:
  "getBackendClient misconfigured_host None None None world0 = (Inl TypeError, world0)"
  by (rule getBackendClient_bad_url)
    (simp_all add: world0_def misconfigured_host_def plain_host_def API_URL_def env_or_def)

lemma first_call_plain:
  assumes "process_env h = (\<lambda>n. None)" and "login_outcome h = (\<lambda>n c u p. Inr ())"
    and "URL_parses h ''http://localhost:8055''"
  shows "getBackendClient h None None None world0 = (Inr default_client, world1)"
  using assms
  by (simp add: getBackendClient_first world0_def world1_def default_client_def API_URL_def
      API_USERNAME_def API_PASSWORD_def env_or_def Let_def)

text \<open>
  C5. When no client is memoized yet, the client can be built (\<open>API_URL\<close> is a URL) and
  the login resolves, the first call returns a client, and a second call, whatever its
  arguments, returns the same instance and leaves the world as it was: no client is
  created and no login is performed.
\<close>

theorem getBackendClient_twice_same_instance:
  assumes "client w = None"
    and "URL_parses h (API_URL h)"
    and "login_outcome h (length (logins w))
           \<lparr>ident = created w, url = API_URL h,
            extensions = [''authentication(json)'', ''rest'', ''graphql'']\<rparr>
           (API_USERNAME h) (API_PASSWORD h) = Inr ok"
  shows "\<exists>c w1. getBackendClient h u p a w = (Inr c, w1)
           \<and> getBackendClient h u' p' a' w1 = (Inr c, w1)
           \<and> logins w1 = logins w @ [(ident c, API_USERNAME h, API_PASSWORD h)]
           \<and> logins (snd (getBackendClient h u' p' a' w1)) = logins w1
           \<and> created (snd (getBackendClient h u' p' a' w1)) = created w1"
proof -
  let ?c = "\<lparr>ident = created w, url = API_URL h,
             extensions = [''authentication(json)'', ''rest'', ''graphql'']\<rparr>"
  let ?w1 = "w\<lparr>client := Some ?c, created := Suc (created w),
               logins := logins w @ [(created w, API_USERNAME h, API_PASSWORD h)]\<rparr>"
  have first: "getBackendClient h u p a w = (Inr ?c, ?w1)"
    using assms by (simp add: getBackendClient_first Let_def)
  have memo: "client ?w1 = Some ?c" by simp
  have second: "getBackendClient h u' p' a' ?w1 = (Inr ?c, ?w1)"
    using memo by (rule getBackendClient_memoized)
  show ?thesis
    using first second by simp
qed

theorem getBackendClient_twice_same_instance_witness:
  "client world0 = None
   \<and> URL_parses plain_host (API_URL plain_host)
   \<and> login_outcome plain_host (length (logins world0))
        \<lparr>ident = created world0, url = API_URL plain_host,
         extensions = [''authentication(json)'', ''rest'', ''graphql'']\<rparr>
        (API_USERNAME plain_host) (API_PASSWORD plain_host) = Inr ()
   \<and> (\<exists>c w1. getBackendClient plain_host None None None world0 = (Inr c, w1)
         \<and> getBackendClient plain_host None None None w1 = (Inr c, w1)
         \<and> logins w1 = logins world0 @ [(ident c, API_USERNAME plain_host, API_PASSWORD plain_host)]
         \<and> logins (snd (getBackendClient plain_host None None None w1)) = logins w1
         \<and> created (snd (getBackendClient plain_host None None None w1)) = created w1)"
proof -
  have a: "client world0 = None" by (simp add: world0_def)
  have b: "login_outcome plain_host (length (logins world0))
        \<lparr>ident = created world0, url = API_URL plain_host,
         extensions = [''authentication(json)'', ''rest'', ''graphql'']\<rparr>
        (API_USERNAME plain_host) (API_PASSWORD plain_host) = Inr ()"
    by (simp add: plain_host_def)
  have v: "URL_parses plain_host (API_URL plain_host)"
    by (simp add: plain_host_def API_URL_def env_or_def)
  show ?thesis
    using a v b
      getBackendClient_twice_same_instance [OF a v b, of None None None None None None]
    by blast
qed

text \<open>A rejected login, on any host: the Error, and the client memoized all the same.\<close>

lemma getBackendClient_rejected_login:
  assumes "client w = None"
    and "URL_parses h (API_URL h)"
    and "login_outcome h (length (logins w))
           \<lparr>ident = created w, url = API_URL h,
            extensions = [''authentication(json)'', ''rest'', ''graphql'']\<rparr>
           (API_USERNAME h) (API_PASSWORD h) = Inl err"
  shows "\<exists>c w1. getBackendClient h u p a w
             = (Inl (Error (''Failed to log into backend: '' @ JSON_stringify h err)), w1)
           \<and> client w1 = Some c
           \<and> getBackendClient h u' p' a' w1 = (Inr c, w1)"
  using assms
  by (simp add: getBackendClient_first getBackendClient_memoized Let_def)

text \<open>
  C1. A first call whose login rejects with \<open>{}\<close> raises the Error with the serialized
  cause in its message. The client built for that call stays in the module variable:
  the next call returns it and performs no login (the world, and with it the login
  trace, is unchanged).
\<close>

theorem getBackendClient_failed_login_memoized:
  "getBackendClient locked_host None None None world0
     = (Inl (Error ''Failed to log into backend: {}''), world1)
   \<and> client world1 = Some default_client
   \<and> getBackendClient locked_host None None None world1 = (Inr default_client, world1)"
proof -
  have "getBackendClient locked_host None None None world0
     = (Inl (Error ''Failed to log into backend: {}''), world1)"
    by (simp add: getBackendClient_first world0_def world1_def default_client_def
        locked_host_def plain_host_def API_URL_def API_USERNAME_def API_PASSWORD_def
        env_or_def Let_def)
  moreover have m: "client world1 = Some default_client"
    by (simp add: world1_def)
  moreover have "getBackendClient locked_host None None None world1
     = (Inr default_client, world1)"
    using m by (rule getBackendClient_memoized)
  ultimately show ?thesis by (intro conjI)
qed

text \<open>
  C4. A first call given a username, a password and a URL builds the client on
  \<open>API_URL\<close> and logs in with \<open>API_USERNAME\<close> and \<open>API_PASSWORD\<close>: the arguments
  are not used.
\<close>

theorem getBackendClient_arguments_unused:
  "getBackendClient plain_host (Some ''editor'') (Some ''s3cret'')
      (Some ''https://cms.example.org'') world0
     = (Inr default_client, world1)
   \<and> url default_client = ''http://localhost:8055''
   \<and> logins world1 = [(0, ''admin'', ''password'')]"
  by (simp add: getBackendClient_first world0_def world1_def default_client_def
      plain_host_def API_URL_def API_USERNAME_def API_PASSWORD_def env_or_def Let_def)

text \<open>On every value but \<open>null\<close> the capability check returns, and is true exactly on the
  objects that have all the names of \<open>CLIENT_PROPS\<close>.\<close>

lemma every_in_object:
  "every_in ks (JObj ps) = Inr (list_all (has_field (JObj ps)) ks)"
  by (induction ks) (simp_all add: has_field_def)

lemma every_in_array:
  "every_in CLIENT_PROPS (JArr xs) = Inr False"
  by (simp add: CLIENT_PROPS_def)

lemma isDirectusClient_not_null:
  assumes "v \<noteq> JNull"
  shows "isDirectusClient v
           = Inr (typeof v = ''object'' \<and> list_all (has_field v) CLIENT_PROPS)"
proof (cases v)
  case (JArr xs)
  then show ?thesis
    by (simp add: isDirectusClient_def every_in_array has_field_def CLIENT_PROPS_def)
next
  case (JObj ps)
  then show ?thesis
    by (simp add: isDirectusClient_def every_in_object)
qed (use assms in \<open>simp_all add: isDirectusClient_def\<close>)

text \<open>
  C2. On \<open>null\<close> the capability check does not return \<open>false\<close>: \<open>typeof null\<close> is
  \<open>object\<close>, and the first \<open>in\<close> test raises a TypeError.
\<close>

theorem isDirectusClient_null_raises:
  "isDirectusClient JNull = Inl TypeError"
  by (simp add: isDirectusClient_def CLIENT_PROPS_def)

section \<open>Properties of the site configuration\<close>

lemma opt_get_lacking: "\<not> has_field v k \<Longrightarrow> opt_get v k = JUndefined"
  by (cases v) (simp_all add: has_field_def)

lemma service_mode_object:
  "js_get v k = Inr (JStr s) \<Longrightarrow> (\<exists>ps. v = JObj ps) \<or> (\<exists>ps. v = JFun ps)"
  by (cases v) simp_all

lemma js_get_opt_get: "truthy v \<Longrightarrow> js_get v k = Inr (opt_get v k)"
  by (cases v) simp_all

lemma truthy_opt_get_js_get: "truthy (opt_get v k) \<Longrightarrow> js_get v k = Inr (opt_get v k)"
  by (cases v) simp_all

lemma run_without_global:
  assumes "getBackendClient h None None None w = (Inr c, w1)"
    and "query_outcome h (length (queries w1)) c SITE_CONFIG_QUERY = Inr resp"
    and "\<not> truthy (opt_get resp ''global'')"
  shows "getSiteConfig h w =
     (Inr (JObj []),
      w1\<lparr>queries := queries w1 @ [(ident c, SITE_CONFIG_QUERY)],
          console := console w1
            @ [''No global object found in getSiteConfig, should not happen.''],
          debug_out := debug_out w1
            @ [''in getSiteConfig, result: '' @ JSON_stringify h (JObj [])]\<rparr>)"
  using assms
  by (simp add: getSiteConfig_def client_query_def console_error_def return_result_def
      debug_def)

text \<open>
  C8. When the client is obtained and the first query resolves with a response that has
  no \<open>global\<close> field, \<open>getSiteConfig\<close> writes the diagnostic to the console and
  returns the empty record; no second query is issued and nothing is raised.
\<close>

theorem getSiteConfig_missing_global:
  assumes "getBackendClient h None None None w = (Inr c, w1)"
    and "query_outcome h (length (queries w1)) c SITE_CONFIG_QUERY = Inr resp"
    and "\<not> has_field resp ''global''"
  shows "getSiteConfig h w =
     (Inr (JObj []),
      w1\<lparr>queries := queries w1 @ [(ident c, SITE_CONFIG_QUERY)],
          console := console w1
            @ [''No global object found in getSiteConfig, should not happen.''],
          debug_out := debug_out w1
            @ [''in getSiteConfig, result: '' @ JSON_stringify h (JObj [])]\<rparr>)"
proof -
  have "opt_get resp ''global'' = JUndefined"
    using assms(3) by (rule opt_get_lacking)
  then have "\<not> truthy (opt_get resp ''global'')" by simp
  with assms(1,2) show ?thesis by (rule run_without_global)
qed

theorem getSiteConfig_missing_global_witness:
  "getBackendClient plain_host None None None world0 = (Inr default_client, world1)
   \<and> query_outcome plain_host (length (queries world1)) default_client SITE_CONFIG_QUERY
       = Inr (JObj [])
   \<and> \<not> has_field (JObj []) ''global''
   \<and> fst (getSiteConfig plain_host world0) = Inr (JObj [])
   \<and> console (snd (getSiteConfig plain_host world0))
       = [''No global object found in getSiteConfig, should not happen.'']"
proof -
  have a: "getBackendClient plain_host None None None world0 = (Inr default_client, world1)"
    by (rule first_call_plain) (simp_all add: plain_host_def)
  have b: "query_outcome plain_host (length (queries world1)) default_client SITE_CONFIG_QUERY
       = Inr (JObj [])"
    by (simp add: plain_host_def)
  have c: "\<not> has_field (JObj []) ''global''"
    by (simp add: has_field_def)
  show ?thesis
    using a b c getSiteConfig_missing_global [OF a b c]
    by (simp add: world1_def world0_def)
qed

text \<open>The run once the first record says \<open>maintenance\<close>, and the run when it does not.\<close>

lemma run_in_maintenance_mode:
  assumes "getBackendClient h None None None w = (Inr c, w1)"
    and "query_outcome h (length (queries w1)) c SITE_CONFIG_QUERY = Inr resp"
    and "js_get (opt_get resp ''global'') ''service_mode'' = Inr (JStr ''maintenance'')"
  shows "getSiteConfig h w =
     (let g = opt_get resp ''global'';
          w4 = w1\<lparr>queries := queries w1 @ [(ident c, SITE_CONFIG_QUERY),
                                              (ident c, MAINTENANCE_MODE_QUERY)],
                  console := console w1 @ [''Site is in maintenance mode'']\<rparr>
      in case query_outcome h (Suc (length (queries w1))) c MAINTENANCE_MODE_QUERY of
           Inl err \<Rightarrow>
             (Inl (Error (''Failed to retrieve maintenance mode config: '' @ String_of h err)),
              console_error
                (''Failed to retrieve maintenance mode config: '' @ String_of h err) w4)
         | Inr resp2 \<Rightarrow>
             if truthy (opt_get resp2 ''global'') then
               (case merge_maintenance g resp2 of
                  Inl e \<Rightarrow> (Inl e, w4)
                | Inr merged \<Rightarrow> return_result h merged w4)
             else return_result h g w4)"
proof -
  from assms(3) have "(\<exists>ps. opt_get resp ''global'' = JObj ps) \<or> (\<exists>ps. opt_get resp ''global'' = JFun ps)"
    by (rule service_mode_object)
  then have t: "truthy (opt_get resp ''global'')" by auto
  show ?thesis
    using assms t
    by (simp add: getSiteConfig_def client_query_def console_log_def console_error_def
        return_result_def debug_def Let_def split: sum.splits)
qed

lemma run_in_normal_mode:
  assumes "getBackendClient h None None None w = (Inr c, w1)"
    and "query_outcome h (length (queries w1)) c SITE_CONFIG_QUERY = Inr resp"
    and "js_get (opt_get resp ''global'') ''service_mode'' \<noteq> Inr (JStr ''maintenance'')"
  shows "fst (getSiteConfig h w) =
           Inr (if truthy (opt_get resp ''global'') then opt_get resp ''global'' else JObj [])"
    and "queries (snd (getSiteConfig h w)) = queries w1 @ [(ident c, SITE_CONFIG_QUERY)]"
  using assms
  by (auto simp add: getSiteConfig_def client_query_def console_error_def return_result_def
      debug_def js_get_opt_get)

text \<open>The merge on a record that is an object: both fields are set, the others kept.\<close>

lemma copy_field_object:
  assumes "truthy (opt_get resp2 ''global'')"
  shows "copy_field (JObj ps) resp2 k =
           Inr (JObj (AList.update k (opt_get (opt_get resp2 ''global'') k) ps))"
    and "copy_field (JFun ps) resp2 k =
           Inr (JFun (AList.update k (opt_get (opt_get resp2 ''global'') k) ps))"
  using assms
  by (simp_all add: copy_field_def truthy_opt_get_js_get js_get_opt_get)

lemma merge_maintenance_object:
  assumes "truthy (opt_get resp2 ''global'')"
  shows "merge_maintenance (JObj ps) resp2 =
           Inr (JObj (AList.update ''maintenance_page_body''
                        (opt_get (opt_get resp2 ''global'') ''maintenance_page_body'')
                     (AList.update ''maintenance_page_title''
                        (opt_get (opt_get resp2 ''global'') ''maintenance_page_title'') ps)))"
    and "merge_maintenance (JFun ps) resp2 =
           Inr (JFun (AList.update ''maintenance_page_body''
                        (opt_get (opt_get resp2 ''global'') ''maintenance_page_body'')
                     (AList.update ''maintenance_page_title''
                        (opt_get (opt_get resp2 ''global'') ''maintenance_page_title'') ps)))"
  using assms by (simp_all add: merge_maintenance_def copy_field_object)

lemma merge_maintenance_fields:
  assumes "truthy (opt_get resp2 ''global'')"
    and "(\<exists>ps. g = JObj ps) \<or> (\<exists>ps. g = JFun ps)"
  shows "\<exists>r. merge_maintenance g resp2 = Inr r
           \<and> has_field r ''maintenance_page_title''
           \<and> has_field r ''maintenance_page_body''
           \<and> opt_get r ''maintenance_page_title''
               = opt_get (opt_get resp2 ''global'') ''maintenance_page_title''
           \<and> opt_get r ''maintenance_page_body''
               = opt_get (opt_get resp2 ''global'') ''maintenance_page_body''
           \<and> (\<forall>k. k \<noteq> ''maintenance_page_title'' \<longrightarrow> k \<noteq> ''maintenance_page_body''
                  \<longrightarrow> opt_get r k = opt_get g k \<and> js_get r k = js_get g k)"
  using assms
  by (auto simp add: merge_maintenance_object has_field_def update_conv')

text \<open>The runs on the concrete maintenance hosts.\<close>

lemma maintenance_run:
  assumes "process_env h = (\<lambda>n. None)" and "login_outcome h = (\<lambda>n c u p. Inr ())"
    and "query_outcome h 0 default_client SITE_CONFIG_QUERY
           = Inr (JObj [(''global'', maintenance_record)])"
    and "query_outcome h (Suc 0) default_client MAINTENANCE_MODE_QUERY = Inr resp2"
    and "URL_parses h ''http://localhost:8055''"
  shows "fst (getSiteConfig h world0) =
           (if truthy (opt_get resp2 ''global'')
            then merge_maintenance maintenance_record resp2
            else Inr maintenance_record)"
    and "queries (snd (getSiteConfig h world0))
           = [(0, SITE_CONFIG_QUERY), (0, MAINTENANCE_MODE_QUERY)]"
proof -
  have a: "getBackendClient h None None None world0 = (Inr default_client, world1)"
    using assms(1,2,5) by (rule first_call_plain)
  have b: "query_outcome h (length (queries world1)) default_client SITE_CONFIG_QUERY
             = Inr (JObj [(''global'', maintenance_record)])"
    using assms(3) by (simp add: world1_def world0_def)
  have c: "js_get (opt_get (JObj [(''global'', maintenance_record)]) ''global'')
             ''service_mode'' = Inr (JStr ''maintenance'')"
    by (simp add: maintenance_record_def)
  have d: "query_outcome h (Suc (length (queries world1))) default_client
             MAINTENANCE_MODE_QUERY = Inr resp2"
    using assms(4) by (simp add: world1_def world0_def)
  note run = run_in_maintenance_mode [OF a b c, unfolded Let_def]
  show "fst (getSiteConfig h world0) =
           (if truthy (opt_get resp2 ''global'')
            then merge_maintenance maintenance_record resp2
            else Inr maintenance_record)"
    using run d by (simp add: return_result_def split: sum.splits)
  show "queries (snd (getSiteConfig h world0))
           = [(0, SITE_CONFIG_QUERY), (0, MAINTENANCE_MODE_QUERY)]"
    using run d
    by (simp add: return_result_def debug_def world1_def world0_def default_client_def
        split: sum.splits)
qed

lemma maintenance_host_run:
  "fst (getSiteConfig maintenance_host world0) = Inr merged_record"
proof -
  have "fst (getSiteConfig maintenance_host world0) =
           (if truthy (opt_get (JObj [(''global'', maintenance_texts)]) ''global'')
            then merge_maintenance maintenance_record (JObj [(''global'', maintenance_texts)])
            else Inr maintenance_record)"
    by (rule maintenance_run(1)) (simp_all add: maintenance_host_def plain_host_def)
  then show ?thesis
    by (simp add: maintenance_record_def maintenance_texts_def merged_record_def
        merge_maintenance_def copy_field_def)
qed

lemma maintenance_host_calls:
  "getBackendClient maintenance_host None None None world0 = (Inr default_client, world1)"
  "query_outcome maintenance_host (length (queries world1)) default_client SITE_CONFIG_QUERY
     = Inr (JObj [(''global'', maintenance_record)])"
  "query_outcome maintenance_host (Suc (length (queries world1))) default_client
     MAINTENANCE_MODE_QUERY = Inr (JObj [(''global'', maintenance_texts)])"
proof -
  show "getBackendClient maintenance_host None None None world0 = (Inr default_client, world1)"
    by (rule first_call_plain) (simp_all add: maintenance_host_def plain_host_def)
qed (simp_all add: maintenance_host_def world1_def world0_def)

text \<open>
  C9, as amended. When the first response's service mode is \<open>maintenance\<close>, the
  maintenance query is issued next. If it rejects, \<open>getSiteConfig\<close> raises the Error
  with the cause in its message. If it resolves with a response whose \<open>global\<close> is
  truthy, the result holds both maintenance fields with the values of that \<open>global\<close>
  and otherwise reads as the first record. If it resolves without such a \<open>global\<close>, the
  result is the first record.
\<close>

theorem getSiteConfig_maintenance_second_query:
  assumes "getBackendClient h None None None w = (Inr c, w1)"
    and "query_outcome h (length (queries w1)) c SITE_CONFIG_QUERY = Inr resp"
    and "js_get (opt_get resp ''global'') ''service_mode'' = Inr (JStr ''maintenance'')"
  shows "queries (snd (getSiteConfig h w))
           = queries w1 @ [(ident c, SITE_CONFIG_QUERY), (ident c, MAINTENANCE_MODE_QUERY)]
     \<and> (case query_outcome h (Suc (length (queries w1))) c MAINTENANCE_MODE_QUERY of
          Inl err \<Rightarrow>
            fst (getSiteConfig h w)
              = Inl (Error (''Failed to retrieve maintenance mode config: '' @ String_of h err))
        | Inr resp2 \<Rightarrow>
            if truthy (opt_get resp2 ''global'') then
              (\<exists>r. fst (getSiteConfig h w) = Inr r
                 \<and> has_field r ''maintenance_page_title''
                 \<and> has_field r ''maintenance_page_body''
                 \<and> opt_get r ''maintenance_page_title''
                     = opt_get (opt_get resp2 ''global'') ''maintenance_page_title''
                 \<and> opt_get r ''maintenance_page_body''
                     = opt_get (opt_get resp2 ''global'') ''maintenance_page_body''
                 \<and> (\<forall>k. k \<noteq> ''maintenance_page_title'' \<longrightarrow> k \<noteq> ''maintenance_page_body''
                        \<longrightarrow> opt_get r k = opt_get (opt_get resp ''global'') k))
            else fst (getSiteConfig h w) = Inr (opt_get resp ''global''))"
proof -
  let ?g = "opt_get resp ''global''"
  let ?second = "query_outcome h (Suc (length (queries w1))) c MAINTENANCE_MODE_QUERY"
  note run = run_in_maintenance_mode [OF assms, unfolded Let_def]
  have obj: "(\<exists>ps. ?g = JObj ps) \<or> (\<exists>ps. ?g = JFun ps)"
    using assms(3) by (rule service_mode_object)
  show ?thesis
  proof (cases ?second)
    case (Inl err)
    then show ?thesis
      using run by (simp add: console_error_def)
  next
    case (Inr resp2)
    show ?thesis
    proof (cases "truthy (opt_get resp2 ''global'')")
      case True
      from merge_maintenance_fields [OF True obj]
      obtain r where r: "merge_maintenance ?g resp2 = Inr r"
        and f: "has_field r ''maintenance_page_title''" "has_field r ''maintenance_page_body''"
          "opt_get r ''maintenance_page_title''
             = opt_get (opt_get resp2 ''global'') ''maintenance_page_title''"
          "opt_get r ''maintenance_page_body''
             = opt_get (opt_get resp2 ''global'') ''maintenance_page_body''"
          "\<forall>k. k \<noteq> ''maintenance_page_title'' \<longrightarrow> k \<noteq> ''maintenance_page_body''
                \<longrightarrow> opt_get r k = opt_get ?g k \<and> js_get r k = js_get ?g k"
        by blast
      have "getSiteConfig h w =
          return_result h r (w1\<lparr>queries := queries w1 @ [(ident c, SITE_CONFIG_QUERY),
             (ident c, MAINTENANCE_MODE_QUERY)],
            console := console w1 @ [''Site is in maintenance mode'']\<rparr>)"
        using run Inr True r by simp
      then have "fst (getSiteConfig h w) = Inr r"
        and "queries (snd (getSiteConfig h w))
           = queries w1 @ [(ident c, SITE_CONFIG_QUERY), (ident c, MAINTENANCE_MODE_QUERY)]"
        by (simp_all add: return_result_def debug_def)
      then show ?thesis
        using Inr True f by simp
    next
      case False
      then show ?thesis
        using run Inr by (simp add: return_result_def debug_def)
    qed
  qed
qed

theorem getSiteConfig_maintenance_second_query_witness:
  "getBackendClient maintenance_host None None None world0 = (Inr default_client, world1)
   \<and> query_outcome maintenance_host (length (queries world1)) default_client SITE_CONFIG_QUERY
       = Inr (JObj [(''global'', maintenance_record)])
   \<and> js_get (opt_get (JObj [(''global'', maintenance_record)]) ''global'') ''service_mode''
       = Inr (JStr ''maintenance'')
   \<and> queries (snd (getSiteConfig maintenance_host world0))
       = queries world1 @ [(ident default_client, SITE_CONFIG_QUERY),
                           (ident default_client, MAINTENANCE_MODE_QUERY)]
   \<and> (\<exists>r. fst (getSiteConfig maintenance_host world0) = Inr r
         \<and> has_field r ''maintenance_page_title''
         \<and> has_field r ''maintenance_page_body''
         \<and> opt_get r ''maintenance_page_title'' = JStr ''Down''
         \<and> opt_get r ''maintenance_page_body'' = JStr ''Back soon''
         \<and> opt_get r ''title'' = JStr ''LigerBots'')"
proof -
  note a = maintenance_host_calls(1) and b = maintenance_host_calls(2)
  have c: "js_get (opt_get (JObj [(''global'', maintenance_record)]) ''global'')
             ''service_mode'' = Inr (JStr ''maintenance'')"
    by (simp add: maintenance_record_def)
  have t: "truthy (opt_get (JObj [(''global'', maintenance_texts)]) ''global'')"
    by (simp add: maintenance_texts_def)
  have v: "opt_get (opt_get (JObj [(''global'', maintenance_texts)]) ''global'')
             ''maintenance_page_title'' = JStr ''Down''"
    "opt_get (opt_get (JObj [(''global'', maintenance_texts)]) ''global'')
             ''maintenance_page_body'' = JStr ''Back soon''"
    "opt_get (opt_get (JObj [(''global'', maintenance_record)]) ''global'') ''title''
       = JStr ''LigerBots''"
    by (simp_all add: maintenance_texts_def maintenance_record_def)
  have ne: "''title'' \<noteq> ''maintenance_page_title''" "''title'' \<noteq> ''maintenance_page_body''"
    by simp_all
  note inst = getSiteConfig_maintenance_second_query [OF a b c]
  from inst have q: "queries (snd (getSiteConfig maintenance_host world0))
       = queries world1 @ [(ident default_client, SITE_CONFIG_QUERY),
                           (ident default_client, MAINTENANCE_MODE_QUERY)]"
    by (rule conjunct1)
  from inst [THEN conjunct2] t
  obtain r where r: "fst (getSiteConfig maintenance_host world0) = Inr r"
    "has_field r ''maintenance_page_title''" "has_field r ''maintenance_page_body''"
    "opt_get r ''maintenance_page_title''
       = opt_get (opt_get (JObj [(''global'', maintenance_texts)]) ''global'')
           ''maintenance_page_title''"
    "opt_get r ''maintenance_page_body''
       = opt_get (opt_get (JObj [(''global'', maintenance_texts)]) ''global'')
           ''maintenance_page_body''"
    "\<forall>k. k \<noteq> ''maintenance_page_title'' \<longrightarrow> k \<noteq> ''maintenance_page_body''
        \<longrightarrow> opt_get r k = opt_get (opt_get (JObj [(''global'', maintenance_record)]) ''global'') k"
    unfolding maintenance_host_calls(3) sum.case if_P [OF t] by blast
  from r(6) have "''title'' \<noteq> ''maintenance_page_title'' \<longrightarrow> ''title'' \<noteq> ''maintenance_page_body''
      \<longrightarrow> opt_get r ''title''
           = opt_get (opt_get (JObj [(''global'', maintenance_record)]) ''global'') ''title''"
    by (rule spec)
  with ne v(3) have t1: "opt_get r ''title'' = JStr ''LigerBots''"
    by (simp only: simp_thms)
  have t2: "opt_get r ''maintenance_page_title'' = JStr ''Down''"
    using r(4) v(1) by (rule trans)
  have t3: "opt_get r ''maintenance_page_body'' = JStr ''Back soon''"
    using r(5) v(2) by (rule trans)
  from r(1,2,3) t1 t2 t3 have "\<exists>r. fst (getSiteConfig maintenance_host world0) = Inr r
         \<and> has_field r ''maintenance_page_title''
         \<and> has_field r ''maintenance_page_body''
         \<and> opt_get r ''maintenance_page_title'' = JStr ''Down''
         \<and> opt_get r ''maintenance_page_body'' = JStr ''Back soon''
         \<and> opt_get r ''title'' = JStr ''LigerBots''"
    by (intro exI [of _ r] conjI)
  with a b c q show ?thesis
    by (intro conjI)
qed

text \<open>
  C9 as stated fails: the site is in maintenance mode, the second query is issued and
  resolves with \<open>{global: null}\<close>, and the record returned has neither maintenance
  field.
\<close>

theorem getSiteConfig_merge_counterexample:
  "fst (getSiteConfig maintenance_null_host world0) = Inr maintenance_record
   \<and> queries (snd (getSiteConfig maintenance_null_host world0))
       = [(0, SITE_CONFIG_QUERY), (0, MAINTENANCE_MODE_QUERY)]
   \<and> query_outcome maintenance_null_host 1 default_client MAINTENANCE_MODE_QUERY
       = Inr (JObj [(''global'', JNull)])
   \<and> \<not> has_field maintenance_record ''maintenance_page_title''
   \<and> \<not> has_field maintenance_record ''maintenance_page_body''"
proof -
  have "fst (getSiteConfig maintenance_null_host world0) =
           (if truthy (opt_get (JObj [(''global'', JNull)]) ''global'')
            then merge_maintenance maintenance_record (JObj [(''global'', JNull)])
            else Inr maintenance_record)"
    by (rule maintenance_run(1)) (simp_all add: maintenance_null_host_def plain_host_def)
  moreover have "queries (snd (getSiteConfig maintenance_null_host world0))
       = [(0, SITE_CONFIG_QUERY), (0, MAINTENANCE_MODE_QUERY)]"
    by (rule maintenance_run(2) [where ?resp2.0 = "JObj [(''global'', JNull)]"])
      (simp_all add: maintenance_null_host_def plain_host_def)
  ultimately show ?thesis
    by (simp add: maintenance_record_def has_field_def maintenance_null_host_def)
qed

text \<open>
  C10. When the service mode is \<open>maintenance\<close> and the maintenance query resolves with a
  response that has no \<open>global\<close> field, \<open>getSiteConfig\<close> returns the first response's
  record as it is (so without maintenance fields, unless that record already had them)
  and raises nothing.
\<close>

theorem getSiteConfig_maintenance_without_global:
  assumes "getBackendClient h None None None w = (Inr c, w1)"
    and "query_outcome h (length (queries w1)) c SITE_CONFIG_QUERY = Inr resp"
    and "js_get (opt_get resp ''global'') ''service_mode'' = Inr (JStr ''maintenance'')"
    and "query_outcome h (Suc (length (queries w1))) c MAINTENANCE_MODE_QUERY = Inr resp2"
    and "\<not> has_field resp2 ''global''"
  shows "getSiteConfig h w =
     (Inr (opt_get resp ''global''),
      w1\<lparr>queries := queries w1 @ [(ident c, SITE_CONFIG_QUERY),
                                    (ident c, MAINTENANCE_MODE_QUERY)],
          console := console w1 @ [''Site is in maintenance mode''],
          debug_out := debug_out w1
            @ [''in getSiteConfig, result: '' @ JSON_stringify h (opt_get resp ''global'')]\<rparr>)"
proof -
  have "opt_get resp2 ''global'' = JUndefined"
    using assms(5) by (rule opt_get_lacking)
  then have "\<not> truthy (opt_get resp2 ''global'')" by simp
  then show ?thesis
    using run_in_maintenance_mode [OF assms(1,2,3)] assms(4)
    by (simp add: return_result_def debug_def Let_def)
qed

theorem getSiteConfig_maintenance_without_global_witness:
  "getBackendClient maintenance_bare_host None None None world0 = (Inr default_client, world1)
   \<and> query_outcome maintenance_bare_host (length (queries world1)) default_client
         SITE_CONFIG_QUERY = Inr (JObj [(''global'', maintenance_record)])
   \<and> js_get (opt_get (JObj [(''global'', maintenance_record)]) ''global'') ''service_mode''
         = Inr (JStr ''maintenance'')
   \<and> query_outcome maintenance_bare_host (Suc (length (queries world1))) default_client
         MAINTENANCE_MODE_QUERY = Inr (JObj [])
   \<and> \<not> has_field (JObj []) ''global''
   \<and> fst (getSiteConfig maintenance_bare_host world0) = Inr maintenance_record
   \<and> console (snd (getSiteConfig maintenance_bare_host world0))
         = [''Site is in maintenance mode'']"
proof -
  have a: "getBackendClient maintenance_bare_host None None None world0
             = (Inr default_client, world1)"
    by (rule first_call_plain) (simp_all add: maintenance_bare_host_def plain_host_def)
  have b: "query_outcome maintenance_bare_host (length (queries world1)) default_client
         SITE_CONFIG_QUERY = Inr (JObj [(''global'', maintenance_record)])"
    by (simp add: maintenance_bare_host_def world1_def world0_def)
  have c: "js_get (opt_get (JObj [(''global'', maintenance_record)]) ''global'')
         ''service_mode'' = Inr (JStr ''maintenance'')"
    by (simp add: maintenance_record_def)
  have d: "query_outcome maintenance_bare_host (Suc (length (queries world1))) default_client
         MAINTENANCE_MODE_QUERY = Inr (JObj [])"
    by (simp add: maintenance_bare_host_def world1_def world0_def)
  have e: "\<not> has_field (JObj []) ''global''"
    by (simp add: has_field_def)
  show ?thesis
    using a b c d e getSiteConfig_maintenance_without_global [OF a b c d e]
    by (simp add: world1_def world0_def)
qed

text \<open>
  C3, as amended. For a first response whose record does not itself carry the
  maintenance fields, the record returned has \<open>maintenance_page_title\<close>, and likewise
  \<open>maintenance_page_body\<close>, exactly when its service mode is \<open>maintenance\<close> and the
  maintenance query resolved with a response whose \<open>global\<close> is truthy.
\<close>

theorem getSiteConfig_maintenance_fields_iff:
  assumes "getBackendClient h None None None w = (Inr c, w1)"
    and "query_outcome h (length (queries w1)) c SITE_CONFIG_QUERY = Inr resp"
    and "fst (getSiteConfig h w) = Inr r"
    and "\<not> has_field (opt_get resp ''global'') ''maintenance_page_title''"
    and "\<not> has_field (opt_get resp ''global'') ''maintenance_page_body''"
  shows "has_field r ''maintenance_page_title''
           = (js_get r ''service_mode'' = Inr (JStr ''maintenance'')
              \<and> (\<exists>resp2. query_outcome h (Suc (length (queries w1))) c MAINTENANCE_MODE_QUERY
                            = Inr resp2 \<and> truthy (opt_get resp2 ''global'')))
     \<and> has_field r ''maintenance_page_body''
           = (js_get r ''service_mode'' = Inr (JStr ''maintenance'')
              \<and> (\<exists>resp2. query_outcome h (Suc (length (queries w1))) c MAINTENANCE_MODE_QUERY
                            = Inr resp2 \<and> truthy (opt_get resp2 ''global'')))"
proof -
  let ?g = "opt_get resp ''global''"
  let ?second = "query_outcome h (Suc (length (queries w1))) c MAINTENANCE_MODE_QUERY"
  show ?thesis
  proof (cases "js_get ?g ''service_mode'' = Inr (JStr ''maintenance'')")
    case False
    from run_in_normal_mode(1) [OF assms(1,2) False] assms(3)
    have r: "r = (if truthy ?g then ?g else JObj [])" by simp
    have "js_get r ''service_mode'' \<noteq> Inr (JStr ''maintenance'')"
      using False r by (simp split: if_splits)
    moreover have "\<not> has_field r ''maintenance_page_title''"
      and "\<not> has_field r ''maintenance_page_body''"
      using r assms(4,5) by (simp_all add: has_field_def split: if_splits)
    ultimately show ?thesis by simp
  next
    case True
    note run = run_in_maintenance_mode [OF assms(1,2) True, unfolded Let_def]
    have obj: "(\<exists>ps. ?g = JObj ps) \<or> (\<exists>ps. ?g = JFun ps)"
      using True by (rule service_mode_object)
    show ?thesis
    proof (cases ?second)
      case (Inl err)
      then show ?thesis
        using run assms(3) by simp
    next
      case (Inr resp2)
      show ?thesis
      proof (cases "truthy (opt_get resp2 ''global'')")
        case t: True
        from merge_maintenance_fields [OF t obj]
        obtain m where m: "merge_maintenance ?g resp2 = Inr m"
          and f: "has_field m ''maintenance_page_title''" "has_field m ''maintenance_page_body''"
          and same: "\<forall>k. k \<noteq> ''maintenance_page_title'' \<longrightarrow> k \<noteq> ''maintenance_page_body''
                \<longrightarrow> opt_get m k = opt_get ?g k \<and> js_get m k = js_get ?g k"
          by blast
        have "r = m"
          using run Inr t m assms(3) by (simp add: return_result_def)
        moreover have "js_get m ''service_mode'' = js_get ?g ''service_mode''"
          using same by simp
        ultimately show ?thesis
          using f True Inr t by auto
      next
        case n: False
        have "r = ?g"
          using run Inr n assms(3) by (simp add: return_result_def)
        then show ?thesis
          using assms(4,5) Inr n by auto
      qed
    qed
  qed
qed

theorem getSiteConfig_maintenance_fields_iff_witness:
  "getBackendClient maintenance_host None None None world0 = (Inr default_client, world1)
   \<and> query_outcome maintenance_host (length (queries world1)) default_client SITE_CONFIG_QUERY
       = Inr (JObj [(''global'', maintenance_record)])
   \<and> fst (getSiteConfig maintenance_host world0) = Inr merged_record
   \<and> \<not> has_field (opt_get (JObj [(''global'', maintenance_record)]) ''global'')
         ''maintenance_page_title''
   \<and> \<not> has_field (opt_get (JObj [(''global'', maintenance_record)]) ''global'')
         ''maintenance_page_body''
   \<and> has_field merged_record ''maintenance_page_title''
   \<and> has_field merged_record ''maintenance_page_body''
   \<and> js_get merged_record ''service_mode'' = Inr (JStr ''maintenance'')
   \<and> (\<exists>resp2. query_outcome maintenance_host (Suc (length (queries world1))) default_client
                  MAINTENANCE_MODE_QUERY = Inr resp2 \<and> truthy (opt_get resp2 ''global''))"
proof -
  note a = maintenance_host_calls(1) and b = maintenance_host_calls(2)
  note c = maintenance_host_run
  have d: "\<not> has_field (opt_get (JObj [(''global'', maintenance_record)]) ''global'')
         ''maintenance_page_title''"
    by (simp add: maintenance_record_def has_field_def)
  have e: "\<not> has_field (opt_get (JObj [(''global'', maintenance_record)]) ''global'')
         ''maintenance_page_body''"
    by (simp add: maintenance_record_def has_field_def)
  have f: "has_field merged_record ''maintenance_page_title''"
    by (simp add: merged_record_def has_field_def)
  note iff = getSiteConfig_maintenance_fields_iff [OF a b c d e]
  from iff f have g: "js_get merged_record ''service_mode'' = Inr (JStr ''maintenance'')
      \<and> (\<exists>resp2. query_outcome maintenance_host (Suc (length (queries world1))) default_client
                  MAINTENANCE_MODE_QUERY = Inr resp2 \<and> truthy (opt_get resp2 ''global''))"
    by blast
  with iff have h: "has_field merged_record ''maintenance_page_body''"
    by blast
  show ?thesis
    using a b c d e f g h by blast
qed

text \<open>
  C3 as stated fails: the second query resolves with \<open>{}\<close>, and the record returned has
  service mode \<open>maintenance\<close> and neither maintenance field.
\<close>

theorem getSiteConfig_maintenance_fields_counterexample:
  "fst (getSiteConfig maintenance_bare_host world0) = Inr maintenance_record
   \<and> js_get maintenance_record ''service_mode'' = Inr (JStr ''maintenance'')
   \<and> \<not> has_field maintenance_record ''maintenance_page_title''
   \<and> \<not> has_field maintenance_record ''maintenance_page_body''"
proof -
  have "fst (getSiteConfig maintenance_bare_host world0) =
           (if truthy (opt_get (JObj []) ''global'')
            then merge_maintenance maintenance_record (JObj [])
            else Inr maintenance_record)"
    by (rule maintenance_run(1)) (simp_all add: maintenance_bare_host_def plain_host_def)
  then show ?thesis
    by (simp add: maintenance_record_def has_field_def)
qed

section \<open>Properties of the page fetcher\<close>

lemma getPage_with_client:
  assumes "getBackendClient h None None None w = (Inr c, w1)"
  shows "queries (snd (getPage h slug qa w))
           = queries w1 @ [(ident c, js_replace (case qa of None \<Rightarrow> PAGE_QUERY | Some q \<Rightarrow> q)
                                       ''{{slug}}'' slug)]"
  using assms
  by (simp add: getPage_def client_query_def Let_def split: sum.splits prod.splits)

lemma about_query:
  \<open>js_replace PAGE_QUERY ''{{slug}}'' ''about'' = join_lines
     [''{'',
      ''  page(filter: { slug: { _eq: "about" } }) {'',
      ''      slug'',
      ''      title'',
      ''      script'',
      ''      content'',
      ''      style'',
      ''  }'',
      ''}'']\<close>
  by (simp add: js_replace_def PAGE_QUERY_def)

text \<open>
  The object that holds the list, after \<open>shift\<close>: its \<open>page\<close> reads as the new list,
  every other property as before.
\<close>

lemma page_list_owner:
  "js_get resp k = Inr (JArr xs) \<Longrightarrow> (\<exists>ps. resp = JObj ps) \<or> (\<exists>ps. resp = JFun ps)"
  by (cases resp) simp_all

lemma put_field_reads:
  assumes "(\<exists>ps. resp = JObj ps) \<or> (\<exists>ps. resp = JFun ps)"
  shows "js_get (put_field resp k x) k = Inr x"
    and "k' \<noteq> k \<Longrightarrow> js_get (put_field resp k x) k' = js_get resp k'"
  using assms by (auto simp add: update_conv')

text \<open>
  C6. When the client is obtained, the query resolves and the response has a \<open>page\<close>
  list, \<open>getPage\<close> raises nothing and returns the first element of the list as it is,
  or \<open>undefined\<close> when the list is empty. The response it leaves behind holds under
  \<open>page\<close> the list without its first element, the other elements in their order, and
  reads as before under every other name.
\<close>

theorem getPage_takes_first:
  assumes "getBackendClient h None None None w = (Inr c, w1)"
    and "query_outcome h (length (queries w1)) c
           (js_replace (case qa of None \<Rightarrow> PAGE_QUERY | Some q \<Rightarrow> q) ''{{slug}}'' slug)
           = Inr resp"
    and "js_get resp ''page'' = Inr (JArr pages)"
  shows "\<exists>out. getPage h slug qa w =
            (Inr out,
             w1\<lparr>queries := queries w1
                   @ [(ident c, js_replace (case qa of None \<Rightarrow> PAGE_QUERY | Some q \<Rightarrow> q)
                                  ''{{slug}}'' slug)]\<rparr>)
          \<and> returned out = (case pages of [] \<Rightarrow> JUndefined | x # xs \<Rightarrow> x)
          \<and> js_get (response_after out) ''page'' = Inr (JArr (drop 1 pages))
          \<and> (\<forall>k. k \<noteq> ''page'' \<longrightarrow> js_get (response_after out) k = js_get resp k)"
proof -
  let ?out = "\<lparr>returned = (case pages of [] \<Rightarrow> JUndefined | x # xs \<Rightarrow> x),
              response_after = put_field resp ''page'' (JArr (drop 1 pages))\<rparr>"
  have run: "getPage h slug qa w =
            (Inr ?out,
             w1\<lparr>queries := queries w1
                   @ [(ident c, js_replace (case qa of None \<Rightarrow> PAGE_QUERY | Some q \<Rightarrow> q)
                                  ''{{slug}}'' slug)]\<rparr>)"
    using assms
    by (cases pages) (simp_all add: getPage_def client_query_def shift_page_def Let_def)
  have owner: "(\<exists>ps. resp = JObj ps) \<or> (\<exists>ps. resp = JFun ps)"
    using assms(3) by (rule page_list_owner)
  have "js_get (response_after ?out) ''page'' = Inr (JArr (drop 1 pages))"
    using put_field_reads(1) [OF owner] by simp
  moreover have "\<forall>k. k \<noteq> ''page'' \<longrightarrow> js_get (response_after ?out) k = js_get resp k"
    using put_field_reads(2) [OF owner] by simp
  moreover have "returned ?out = (case pages of [] \<Rightarrow> JUndefined | x # xs \<Rightarrow> x)"
    by simp
  ultimately show ?thesis
    using run by (intro exI [of _ ?out] conjI)
qed

theorem getPage_takes_first_witness:
  "getBackendClient page_host None None None world0 = (Inr default_client, world1)
   \<and> query_outcome page_host (length (queries world1)) default_client
        (js_replace (case None of None \<Rightarrow> PAGE_QUERY | Some q \<Rightarrow> q) ''{{slug}}'' ''about'')
        = Inr two_pages
   \<and> js_get two_pages ''page'' = Inr (JArr [about_page, about_draft])
   \<and> (\<exists>out. fst (getPage page_host ''about'' None world0) = Inr out
          \<and> returned out = about_page
          \<and> js_get (response_after out) ''page'' = Inr (JArr [about_draft])
          \<and> js_get (response_after out) ''total'' = Inr (JNum 2))"
proof -
  have a: "getBackendClient page_host None None None world0 = (Inr default_client, world1)"
    by (rule first_call_plain) (simp_all add: page_host_def plain_host_def)
  have b: "query_outcome page_host (length (queries world1)) default_client
        (js_replace (case None of None \<Rightarrow> PAGE_QUERY | Some q \<Rightarrow> q) ''{{slug}}'' ''about'')
        = Inr two_pages"
    by (simp add: page_host_def)
  have c: "js_get two_pages ''page'' = Inr (JArr [about_page, about_draft])"
    by (simp add: two_pages_def)
  have t: "js_get two_pages ''total'' = Inr (JNum 2)"
    by (simp add: two_pages_def)
  have ne: "''total'' \<noteq> ''page''"
    by simp
  from getPage_takes_first [OF a b c]
  obtain out where run: "getPage page_host ''about'' None world0 =
            (Inr out,
             world1\<lparr>queries := queries world1
                   @ [(ident default_client,
                       js_replace (case None of None \<Rightarrow> PAGE_QUERY | Some q \<Rightarrow> q)
                         ''{{slug}}'' ''about'')]\<rparr>)"
    and first: "returned out = (case [about_page, about_draft] of [] \<Rightarrow> JUndefined | x # xs \<Rightarrow> x)"
    and left: "js_get (response_after out) ''page'' = Inr (JArr (drop 1 [about_page, about_draft]))"
    and others: "\<forall>k. k \<noteq> ''page'' \<longrightarrow> js_get (response_after out) k = js_get two_pages k"
    by (elim exE conjE)
  from run have r1: "fst (getPage page_host ''about'' None world0) = Inr out"
    by (simp only: fst_conv)
  from first have r2: "returned out = about_page"
    by simp
  from left have r3: "js_get (response_after out) ''page'' = Inr (JArr [about_draft])"
    by simp
  from others have "''total'' \<noteq> ''page''
      \<longrightarrow> js_get (response_after out) ''total'' = js_get two_pages ''total''"
    by (rule spec)
  with ne have "js_get (response_after out) ''total'' = js_get two_pages ''total''"
    by (rule rev_mp)
  from this t have r4: "js_get (response_after out) ''total'' = Inr (JNum 2)"
    by (rule trans)
  from r1 r2 r3 r4 have "\<exists>out. fst (getPage page_host ''about'' None world0) = Inr out
          \<and> returned out = about_page
          \<and> js_get (response_after out) ''page'' = Inr (JArr [about_draft])
          \<and> js_get (response_after out) ''total'' = Inr (JNum 2)"
    by (intro exI [of _ out] conjI)
  with a b c show ?thesis
    by (intro conjI)
qed

text \<open>
  A response without a \<open>page\<close> field has no list to take from: the TypeError is caught
  and raised again as the wrapped Error.
\<close>

lemma shift_page_without_list:
  "\<not> has_field resp ''page'' \<Longrightarrow> shift_page resp = Inl TypeError"
  by (cases resp) (simp_all add: shift_page_def has_field_def)

lemma getPage_without_page_list:
  assumes "getBackendClient h None None None w = (Inr c, w1)"
    and "query_outcome h (length (queries w1)) c
           (js_replace (case qa of None \<Rightarrow> PAGE_QUERY | Some q \<Rightarrow> q) ''{{slug}}'' slug)
           = Inr resp"
    and "\<not> has_field resp ''page''"
  shows "fst (getPage h slug qa w) = Inl (Error ''failed to retrieve page: {}'')"
  using assms
  by (simp add: getPage_def client_query_def shift_page_without_list Let_def)

text \<open>A replacement text without a dollar sign is substituted literally.\<close>

lemma GetSubstitution_plain:
  "CHR ''$'' \<notin> set repl \<Longrightarrow> GetSubstitution matched pre post repl = repl"
  by (induction matched pre post repl rule: GetSubstitution.induct) auto

lemma js_replace_plain:
  "CHR ''$'' \<notin> set repl \<Longrightarrow> js_replace s pat repl = literal_replace s pat repl"
  by (simp add: js_replace_def literal_replace_def GetSubstitution_plain split: option.splits)

text \<open>
  C7. For the slug \<open>$&\<close> the query issued is not the template with the placeholder
  replaced by the literal slug: \<open>replace\<close> expands \<open>$&\<close> to the matched text, so the
  query sent is the template itself, placeholder included.
\<close>

theorem getPage_dollar_slug_expanded:
  "queries (snd (getPage page_host ''$&'' None world0)) = [(0, PAGE_QUERY)]
   \<and> PAGE_QUERY \<noteq> literal_replace PAGE_QUERY ''{{slug}}'' ''$&''"
proof -
  have a: "getBackendClient page_host None None None world0 = (Inr default_client, world1)"
    by (rule first_call_plain) (simp_all add: page_host_def plain_host_def)
  have r: "js_replace PAGE_QUERY ''{{slug}}'' ''$&'' = PAGE_QUERY"
    by code_simp
  have "queries (snd (getPage page_host ''$&'' None world0)) = [(0, PAGE_QUERY)]"
    using getPage_with_client [OF a, of "''$&''" None]
    by (simp add: r world1_def world0_def default_client_def)
  moreover have "PAGE_QUERY \<noteq> literal_replace PAGE_QUERY ''{{slug}}'' ''$&''"
    by (simp add: literal_replace_def PAGE_QUERY_def)
  ultimately show ?thesis by (intro conjI)
qed

end
